theory Spec2Isabelle
  imports Main "HOL-Library.Word"
begin

section \<open>Machine integers\<close>

text \<open>
  The ledger counters are \<^verbatim>\<open>atomic.Int64\<close> values and the parsed amount is a Go
  \<^verbatim>\<open>int\<close>, which is 64 bits wide on the platforms the server is built for. Both are
  modelled as 64-bit words: addition and negation wrap around, \<open>sint\<close> reads the
  two's-complement value, and comparisons of the source are comparisons of \<open>sint\<close>.
\<close>

type_synonym int64 = "64 word"
type_synonym byte = "8 word"

section \<open>Standard-library functions the handlers call\<close>

subsection \<open>strconv.Atoi\<close>

text \<open>
  \<^verbatim>\<open>strconv.Atoi\<close> returns a value and an error. The error is \<open>None\<close> for
  \<^verbatim>\<open>nil\<close>. The unsigned accumulator of \<^verbatim>\<open>ParseUint\<close> is an \<open>int\<close> that stays
  below \<open>2 ^ 64\<close>, and the overflow tests of the library are written on it.
\<close>

datatype NumError = ErrSyntax | ErrRange

definition maxUint64 :: int where
  "maxUint64 = 2 ^ 64 - 1"

definition isDigit :: "char \<Rightarrow> bool" where
  "isDigit c \<longleftrightarrow> (48::nat) \<le> of_char c \<and> (of_char c :: nat) \<le> 57"

definition digitVal :: "char \<Rightarrow> int" where
  "digitVal c = of_char c - 48"

fun parseUintLoop :: "int \<Rightarrow> string \<Rightarrow> int \<times> NumError option" where
  "parseUintLoop n [] = (n, None)"
| "parseUintLoop n (c # cs) =
     (if \<not> isDigit c then (0, Some ErrSyntax)
      else if n \<ge> maxUint64 div 10 + 1 then (maxUint64, Some ErrRange)
      else if n * 10 + digitVal c > maxUint64 then (maxUint64, Some ErrRange)
      else parseUintLoop (n * 10 + digitVal c) cs)"

definition ParseUint :: "string \<Rightarrow> int \<times> NumError option" where
  "ParseUint s = (if s = [] then (0, Some ErrSyntax) else parseUintLoop 0 s)"

definition ParseInt :: "string \<Rightarrow> int64 \<times> NumError option" where
  "ParseInt s =
     (case s of
        [] \<Rightarrow> (0, Some ErrSyntax)
      | c # cs \<Rightarrow>
          (let neg = (c = CHR ''-'');
               s1 = (if c = CHR ''+'' \<or> c = CHR ''-'' then cs else s);
               (un, err) = ParseUint s1
           in if err = Some ErrSyntax then (0, err)
              else if \<not> neg \<and> un \<ge> 2 ^ 63 then (word_of_int (2 ^ 63 - 1), Some ErrRange)
              else if neg \<and> un > 2 ^ 63 then (- word_of_int (2 ^ 63), Some ErrRange)
              else (if neg then - word_of_int un else word_of_int un, None)))"

fun atoiFastLoop :: "int \<Rightarrow> string \<Rightarrow> int option" where
  "atoiFastLoop n [] = Some n"
| "atoiFastLoop n (ch # cs) =
     (if (of_char ch :: byte) - 48 > 9 then None
      else atoiFastLoop (n * 10 + uint ((of_char ch :: byte) - 48)) cs)"

definition Atoi :: "string \<Rightarrow> int64 \<times> NumError option" where
  "Atoi s =
     (if 0 < length s \<and> length s < 19 then
        (let signed = (hd s = CHR ''-'' \<or> hd s = CHR ''+'');
             s1 = (if signed then tl s else s)
         in if signed \<and> length s1 < 1 then (0, Some ErrSyntax)
            else (case atoiFastLoop 0 s1 of
                    None \<Rightarrow> (0, Some ErrSyntax)
                  | Some n \<Rightarrow> (if hd s = CHR ''-'' then - word_of_int n else word_of_int n, None)))
      else ParseInt s)"

subsection \<open>strconv.Itoa\<close>

function fmtDigits :: "int \<Rightarrow> string" where
  "fmtDigits u =
     (if u < 10 then [char_of (48 + u)]
      else fmtDigits (u div 10) @ [char_of (48 + u mod 10)])"
  by pat_completeness auto
termination
  by (relation "measure nat") auto

declare fmtDigits.simps [simp del]

definition Itoa :: "int64 \<Rightarrow> string" where
  "Itoa i =
     (if sint i < 0 then CHR ''-'' # fmtDigits (- sint i)
      else fmtDigits (sint i))"

subsection \<open>encoding/base64 and crypto/rand\<close>

definition encodeURL :: string where
  "encodeURL = ''ABCDEFGHIJKLMNOPQRSTUVWXYZabcdefghijklmnopqrstuvwxyz0123456789-_''"

definition enc :: "int \<Rightarrow> char" where
  "enc v = encodeURL ! nat (v mod 64)"

text \<open>
  \<^verbatim>\<open>base64.RawURLEncoding.EncodeToString\<close>: three bytes give four characters, a
  remainder of one byte gives two and a remainder of two bytes gives three; the raw
  encoding writes no padding.
\<close>

fun EncodeToString :: "byte list \<Rightarrow> string" where
  "EncodeToString [] = []"
| "EncodeToString [a] =
     (let v = uint a * 65536
      in [enc (v div 262144), enc (v div 4096)])"
| "EncodeToString [a, b] =
     (let v = uint a * 65536 + uint b * 256
      in [enc (v div 262144), enc (v div 4096), enc (v div 64)])"
| "EncodeToString (a # b # c # rest) =
     (let v = uint a * 65536 + uint b * 256 + uint c
      in [enc (v div 262144), enc (v div 4096), enc (v div 64), enc v] @ EncodeToString rest)"

text \<open>
  The random source is a pool of bytes held in the state. \<^verbatim>\<open>rand.Read(b)\<close> either
  fills all of \<open>b\<close> from the pool or reports an error and leaves the pool as it is.
\<close>

definition rand_Read :: "nat \<Rightarrow> byte list \<Rightarrow> byte list option \<times> byte list" where
  "rand_Read n pool =
     (if length pool < n then (None, pool) else (Some (take n pool), drop n pool))"

section \<open>Requests, response writers and the shared state\<close>

text \<open>
  A header holds a list of values for a name; \<^verbatim>\<open>Get\<close> returns the first one or the
  empty string, \<^verbatim>\<open>Set\<close> replaces the list. Both canonicalise the name in the same
  way, so the map is indexed by the name as the program writes it.
\<close>

type_synonym Header = "string \<rightharpoonup> string list"

definition Header_Get :: "string \<Rightarrow> Header \<Rightarrow> string" where
  "Header_Get k h = (case h k of None \<Rightarrow> [] | Some [] \<Rightarrow> [] | Some (v # _) \<Rightarrow> v)"

definition Header_Set :: "string \<Rightarrow> string \<Rightarrow> Header \<Rightarrow> Header" where
  "Header_Set k v h = h(k \<mapsto> [v])"

text \<open>
  A context is the chain of key/value pairs added by \<^verbatim>\<open>context.WithValue\<close>, newest
  first. Keys of type \<^verbatim>\<open>RequestIDKey\<close> are kept apart from keys of other types, and a
  stored value is a string or something else.
\<close>

datatype ctxKey = RequestIDKey string | OtherKey string

datatype ctxValue = StringValue string | OtherValue

type_synonym Context = "(ctxKey \<times> ctxValue) list"

definition WithValue :: "Context \<Rightarrow> ctxKey \<Rightarrow> ctxValue \<Rightarrow> Context" where
  "WithValue c k v = (k, v) # c"

definition Value :: "Context \<Rightarrow> ctxKey \<Rightarrow> ctxValue option" where
  "Value c k = map_of c k"

text \<open>
  \<open>Body\<close> is what \<^verbatim>\<open>io.ReadAll(r.Body)\<close> returns: the bytes read and the text of the
  error, if any.
\<close>

record Request =
  Method :: string
  Path :: string
  Header :: Header
  Body :: "string \<times> string option"
  ctx :: Context

text \<open>
  A handler never reads anything back from its \<^verbatim>\<open>http.ResponseWriter\<close>, so what it
  does to the writer is the sequence of method calls it makes on it.
\<close>

datatype wcall =
    WriteHeaderCall int
  | WriteCall string
  | HeaderSetCall string string

text \<open>Each \<^verbatim>\<open>fmt.Printf\<close> of the program is one event on the console.\<close>

datatype logEvent =
    LogStart string string string
  | LogEnd string string string int
  | LogReadError string string
  | LogParseError string NumError
  | LogPaymentSuccessful string int64 int64
  | LogLowBalance string int64 int64
  | LogTransferSuccessful string int64 int64 int64
  | LogLowBalanceTransfer string int64 int64

record world =
  money :: int64
  bank :: int64
  console :: "logEvent list"
  entropy :: "byte list"

type_synonym handler = "Request \<Rightarrow> world \<Rightarrow> wcall list \<times> world"

section \<open>Correlation identifier\<close>

definition RequestIDHeader :: string where
  "RequestIDHeader = ''X-Request-ID''"

definition RequestIDContextKey :: ctxKey where
  "RequestIDContextKey = RequestIDKey ''requestID''"

definition generateRequestID :: "world \<Rightarrow> string \<times> world" where
  "generateRequestID s =
     (case rand_Read 16 (entropy s) of
        (None, pool) \<Rightarrow> (''fallback-id'', s\<lparr>entropy := pool\<rparr>)
      | (Some b, pool) \<Rightarrow> (EncodeToString b, s\<lparr>entropy := pool\<rparr>))"

definition GetRequestID :: "Context option \<Rightarrow> string" where
  "GetRequestID c =
     (case c of
        None \<Rightarrow> []
      | Some c' \<Rightarrow>
          (case Value c' RequestIDContextKey of
             Some (StringValue str) \<Rightarrow> str
           | _ \<Rightarrow> []))"

definition RequestIDMiddleware :: "handler \<Rightarrow> handler" where
  "RequestIDMiddleware next r s =
     (let requestID = Header_Get RequestIDHeader (Header r);
          (requestID, s1) =
             (if requestID = [] \<or> requestID = '' '' then generateRequestID s
              else (requestID, s));
          c = WithValue (ctx r) RequestIDContextKey (StringValue requestID);
          r1 = r\<lparr>ctx := c\<rparr>;
          (calls, s2) = next r1 s1
      in (HeaderSetCall RequestIDHeader requestID # calls, s2))"

section \<open>Response status recorder and logging\<close>

text \<open>
  \<^verbatim>\<open>responseWriter\<close> embeds the writer it wraps, here the calls forwarded to it so
  far, and adds the observed status.
\<close>

record responseWriter =
  ResponseWriter :: "wcall list"
  status :: int

definition rw_WriteHeader :: "int \<Rightarrow> responseWriter \<Rightarrow> responseWriter" where
  "rw_WriteHeader code rw =
     (let rw1 = rw\<lparr>status := code\<rparr>
      in rw1\<lparr>ResponseWriter := ResponseWriter rw1 @ [WriteHeaderCall code]\<rparr>)"

text \<open>
  Method dispatch on a \<^verbatim>\<open>*responseWriter\<close>: \<^verbatim>\<open>WriteHeader\<close> is its own method,
  \<^verbatim>\<open>Write\<close> and \<^verbatim>\<open>Header\<close> are promoted from the embedded writer.
\<close>

fun rw_call :: "responseWriter \<Rightarrow> wcall \<Rightarrow> responseWriter" where
  "rw_call rw (WriteHeaderCall code) = rw_WriteHeader code rw"
| "rw_call rw (WriteCall buf) = rw\<lparr>ResponseWriter := ResponseWriter rw @ [WriteCall buf]\<rparr>"
| "rw_call rw (HeaderSetCall k v) = rw\<lparr>ResponseWriter := ResponseWriter rw @ [HeaderSetCall k v]\<rparr>"

text \<open>
  The logging stage prints a start event, runs the wrapped handler on a fresh recorder
  with status 200 and prints an end event with the status the recorder holds. The
  elapsed time of the end event is left out.
\<close>

definition LoggingMiddleware :: "handler \<Rightarrow> handler" where
  "LoggingMiddleware next r s =
     (let requestID = GetRequestID (Some (ctx r));
          s1 = s\<lparr>console := console s @ [LogStart requestID (Method r) (Path r)]\<rparr>;
          rw = \<lparr>ResponseWriter = [], status = 200\<rparr>;
          (calls, s2) = next r s1;
          rw1 = foldl rw_call rw calls
      in (ResponseWriter rw1,
          s2\<lparr>console := console s2 @ [LogEnd requestID (Method r) (Path r) (status rw1)]\<rparr>))"

section \<open>Transaction handlers\<close>

text \<open>
  Both handlers read the body, parse it with \<^verbatim>\<open>strconv.Atoi\<close> and return early on
  either error. The rest runs between \<^verbatim>\<open>mtx.Lock()\<close> and the deferred
  \<^verbatim>\<open>mtx.Unlock()\<close>; here one request runs at a time, so the lock does not show in
  the result. \<^verbatim>\<open>money.Load() >= int64(reqBodyInt)\<close> compares signed values,
  \<^verbatim>\<open>money.Add(int64(-reqBodyInt))\<close> and \<^verbatim>\<open>bank.Add(int64(reqBodyInt))\<close> are 64-bit
  additions.
\<close>

definition payHandler :: handler where
  "payHandler r s =
     (let requestID = GetRequestID (Some (ctx r));
          (reqBody, err) = Body r
      in case err of
           Some e \<Rightarrow>
             (let msg = ''error read HTTP body'' @ e
              in ([WriteCall msg], s\<lparr>console := console s @ [LogReadError requestID msg]\<rparr>))
         | None \<Rightarrow>
             (let (reqBodyInt, err) = Atoi reqBody
              in case err of
                   Some e \<Rightarrow>
                     ([WriteCall ''invalid amount''],
                      s\<lparr>console := console s @ [LogParseError requestID e]\<rparr>)
                 | None \<Rightarrow>
                     if sint reqBodyInt \<le> sint (money s) then
                       (let s1 = s\<lparr>money := money s + (- reqBodyInt)\<rparr>;
                            s2 = s1\<lparr>console := console s1 @
                                   [LogPaymentSuccessful requestID reqBodyInt (money s1)]\<rparr>;
                            valueMoney = Itoa (money s2);
                            valuebank = Itoa (bank s2);
                            response = ''current balance: '' @ valueMoney @
                                       '', current bank: '' @ valuebank
                        in ([WriteCall response], s2))
                     else
                       ([WriteCall ''low balance''],
                        s\<lparr>console := console s @
                            [LogLowBalance requestID reqBodyInt (money s)]\<rparr>)))"

definition saveHandler :: handler where
  "saveHandler r s =
     (let requestID = GetRequestID (Some (ctx r));
          (reqBody, err) = Body r
      in case err of
           Some e \<Rightarrow>
             (let msg = ''error read HTTP body'' @ e
              in ([WriteCall msg], s\<lparr>console := console s @ [LogReadError requestID msg]\<rparr>))
         | None \<Rightarrow>
             (let (reqBodyInt, err) = Atoi reqBody
              in case err of
                   Some e \<Rightarrow>
                     ([WriteCall ''invalid amount''],
                      s\<lparr>console := console s @ [LogParseError requestID e]\<rparr>)
                 | None \<Rightarrow>
                     if sint reqBodyInt \<le> sint (money s) then
                       (let s1 = s\<lparr>money := money s + (- reqBodyInt)\<rparr>;
                            s2 = s1\<lparr>bank := bank s1 + reqBodyInt\<rparr>;
                            s3 = s2\<lparr>console := console s2 @
                                   [LogTransferSuccessful requestID reqBodyInt (money s2) (bank s2)]\<rparr>;
                            valueMoney = Itoa (money s3);
                            valuebank = Itoa (bank s3);
                            response = ''current balance: '' @ valueMoney @
                                       '', current bank: '' @ valuebank
                        in ([WriteCall response], s3))
                     else
                       ([WriteCall ''low balance for bank transfer''],
                        s\<lparr>console := console s @
                            [LogLowBalanceTransfer requestID reqBodyInt (money s)]\<rparr>)))"

definition payHandlerChain :: handler where
  "payHandlerChain = RequestIDMiddleware (LoggingMiddleware payHandler)"

definition saveHandlerChain :: handler where
  "saveHandlerChain = RequestIDMiddleware (LoggingMiddleware saveHandler)"

section \<open>The response a client receives\<close>

text \<open>
  The writer at the bottom of a chain follows \<^verbatim>\<open>net/http\<close>, as
  \<^verbatim>\<open>httptest.ResponseRecorder\<close> does: the first \<^verbatim>\<open>WriteHeader\<close> fixes the status and
  the headers, later ones are ignored, and a \<^verbatim>\<open>Write\<close> before any \<^verbatim>\<open>WriteHeader\<close>
  first calls \<^verbatim>\<open>WriteHeader(200)\<close>.
\<close>

record ResponseRecorder =
  Code :: int
  HeaderMap :: Header
  RecBody :: string
  wroteHeader :: bool
  snapHeader :: "Header option"

definition NewRecorder :: ResponseRecorder where
  "NewRecorder =
     \<lparr>Code = 200, HeaderMap = Map.empty, RecBody = [], wroteHeader = False, snapHeader = None\<rparr>"

definition rec_WriteHeader :: "int \<Rightarrow> ResponseRecorder \<Rightarrow> ResponseRecorder" where
  "rec_WriteHeader code rr =
     (if wroteHeader rr then rr
      else rr\<lparr>Code := code, wroteHeader := True, snapHeader := Some (HeaderMap rr)\<rparr>)"

definition rec_Write :: "string \<Rightarrow> ResponseRecorder \<Rightarrow> ResponseRecorder" where
  "rec_Write buf rr =
     (let rr1 = (if \<not> wroteHeader rr then rec_WriteHeader 200 rr else rr)
      in rr1\<lparr>RecBody := RecBody rr1 @ buf\<rparr>)"

fun rec_call :: "ResponseRecorder \<Rightarrow> wcall \<Rightarrow> ResponseRecorder" where
  "rec_call rr (WriteHeaderCall code) = rec_WriteHeader code rr"
| "rec_call rr (WriteCall buf) = rec_Write buf rr"
| "rec_call rr (HeaderSetCall k v) = rr\<lparr>HeaderMap := Header_Set k v (HeaderMap rr)\<rparr>"

definition Result_Header :: "ResponseRecorder \<Rightarrow> Header" where
  "Result_Header rr = (case snapHeader rr of None \<Rightarrow> HeaderMap rr | Some h \<Rightarrow> h)"

definition ServeHTTP :: "handler \<Rightarrow> Request \<Rightarrow> world \<Rightarrow> ResponseRecorder \<times> world" where
  "ServeHTTP h r s = (let (calls, s1) = h r s in (foldl rec_call NewRecorder calls, s1))"

section \<open>Requests and states used in the examples\<close>

text \<open>
  The requests of the repository's tests: a POST whose context already carries the
  identifier \<open>test-id\<close>, with the given body, and a request whose only header is the
  correlation header. \<open>scriptHandler\<close> is a handler that makes the given calls on its
  writer and leaves the state alone; \<open>echoHandler\<close> writes the identifier it finds in
  its context.
\<close>

definition testRequest :: "string \<Rightarrow> Request" where
  "testRequest body =
     \<lparr>Method = ''POST'', Path = ''/pay'', Header = Map.empty, Body = (body, None),
      ctx = WithValue [] RequestIDContextKey (StringValue ''test-id'')\<rparr>"

definition failedRead :: "string \<Rightarrow> Request" where
  "failedRead e =
     \<lparr>Method = ''POST'', Path = ''/pay'', Header = Map.empty, Body = ([], Some e),
      ctx = WithValue [] RequestIDContextKey (StringValue ''test-id'')\<rparr>"

definition headerRequest :: "string \<Rightarrow> Request" where
  "headerRequest v =
     \<lparr>Method = ''GET'', Path = ''/test'', Header = Header_Set RequestIDHeader v Map.empty,
      Body = ([], None), ctx = []\<rparr>"

definition bareRequest :: Request where
  "bareRequest =
     \<lparr>Method = ''GET'', Path = ''/test'', Header = Map.empty, Body = ([], None), ctx = []\<rparr>"

definition testWorld :: "int64 \<Rightarrow> int64 \<Rightarrow> world" where
  "testWorld m b = \<lparr>money = m, bank = b, console = [], entropy = []\<rparr>"

definition seededWorld :: world where
  "seededWorld =
     \<lparr>money = 1000, bank = 0, console = [],
      entropy = [0, 1, 2, 3, 4, 5, 6, 7, 8, 9, 10, 11, 12, 13, 14, 15, 16, 17]\<rparr>"

definition scriptHandler :: "wcall list \<Rightarrow> handler" where
  "scriptHandler calls r s = (calls, s)"

definition echoHandler :: handler where
  "echoHandler r s = ([WriteCall (GetRequestID (Some (ctx r)))], s)"

text \<open>The status codes a sequence of calls sets explicitly, in order.\<close>

fun statusCalls :: "wcall list \<Rightarrow> int list" where
  "statusCalls [] = []"
| "statusCalls (WriteHeaderCall code # cs) = code # statusCalls cs"
| "statusCalls (WriteCall buf # cs) = statusCalls cs"
| "statusCalls (HeaderSetCall k v # cs) = statusCalls cs"

section \<open>Arithmetic of the counters\<close>

lemma sint_range64:
  "- 9223372036854775808 \<le> sint (x :: int64) \<and> sint x < 9223372036854775808"
  using sint_ge [of x] sint_lt [of x] by simp

lemma sint_sub_exact:
  fixes m a :: int64
  assumes "- 9223372036854775808 \<le> sint m - sint a"
    and "sint m - sint a < 9223372036854775808"
  shows "sint (m + (- a)) = sint m - sint a"
proof -
  have "sint (m - a) = signed_take_bit 63 (sint m - sint a)"
    by (simp add: sint_word_ariths)
  also have "\<dots> = sint m - sint a"
    using assms by (simp add: signed_take_bit_int_eq_self)
  finally show ?thesis by simp
qed

lemma sint_add_exact:
  fixes b a :: int64
  assumes "- 9223372036854775808 \<le> sint b + sint a"
    and "sint b + sint a < 9223372036854775808"
  shows "sint (b + a) = sint b + sint a"
proof -
  have "sint (b + a) = signed_take_bit 63 (sint b + sint a)"
    by (simp add: sint_word_ariths)
  also have "\<dots> = sint b + sint a"
    using assms by (simp add: signed_take_bit_int_eq_self)
  finally show ?thesis .
qed

section \<open>What each handler does to the ledger and to its writer\<close>

lemma payHandler_bank: "bank (snd (payHandler r s)) = bank s"
  by (simp add: payHandler_def Let_def split: prod.splits option.splits)

lemma payHandler_money:
  "money (snd (payHandler r s)) =
     (if snd (Body r) = None \<and> snd (Atoi (fst (Body r))) = None \<and>
         sint (fst (Atoi (fst (Body r)))) \<le> sint (money s)
      then money s + (- fst (Atoi (fst (Body r)))) else money s)"
  by (simp add: payHandler_def Let_def split: prod.splits option.splits)

lemma payHandler_calls:
  "fst (payHandler r s) =
     (case snd (Body r) of
        Some e \<Rightarrow> [WriteCall (''error read HTTP body'' @ e)]
      | None \<Rightarrow>
          (case snd (Atoi (fst (Body r))) of
             Some e \<Rightarrow> [WriteCall ''invalid amount'']
           | None \<Rightarrow>
               if sint (fst (Atoi (fst (Body r)))) \<le> sint (money s)
               then [WriteCall (''current balance: '' @
                                Itoa (money s + (- fst (Atoi (fst (Body r))))) @
                                '', current bank: '' @ Itoa (bank s))]
               else [WriteCall ''low balance'']))"
  by (auto simp: payHandler_def Let_def split: prod.splits option.splits)

lemma saveHandler_money:
  "money (snd (saveHandler r s)) =
     (if snd (Body r) = None \<and> snd (Atoi (fst (Body r))) = None \<and>
         sint (fst (Atoi (fst (Body r)))) \<le> sint (money s)
      then money s + (- fst (Atoi (fst (Body r)))) else money s)"
  by (simp add: saveHandler_def Let_def split: prod.splits option.splits)

lemma saveHandler_bank:
  "bank (snd (saveHandler r s)) =
     (if snd (Body r) = None \<and> snd (Atoi (fst (Body r))) = None \<and>
         sint (fst (Atoi (fst (Body r)))) \<le> sint (money s)
      then bank s + fst (Atoi (fst (Body r))) else bank s)"
  by (simp add: saveHandler_def Let_def split: prod.splits option.splits)

lemma saveHandler_calls:
  "fst (saveHandler r s) =
     (case snd (Body r) of
        Some e \<Rightarrow> [WriteCall (''error read HTTP body'' @ e)]
      | None \<Rightarrow>
          (case snd (Atoi (fst (Body r))) of
             Some e \<Rightarrow> [WriteCall ''invalid amount'']
           | None \<Rightarrow>
               if sint (fst (Atoi (fst (Body r)))) \<le> sint (money s)
               then [WriteCall (''current balance: '' @
                                Itoa (money s + (- fst (Atoi (fst (Body r))))) @
                                '', current bank: '' @
                                Itoa (bank s + fst (Atoi (fst (Body r)))))]
               else [WriteCall ''low balance for bank transfer'']))"
  by (auto simp: saveHandler_def Let_def split: prod.splits option.splits)

section \<open>Generated identifiers and the request context\<close>

lemma EncodeToString_length: "length (EncodeToString bs) = (length bs * 4 + 2) div 3"
  by (induction bs rule: EncodeToString.induct) (simp_all add: Let_def)

lemma generateRequestID_nonempty: "fst (generateRequestID s) \<noteq> []"
proof (cases "length (entropy s) < 16")
  case True
  then show ?thesis by (simp add: generateRequestID_def rand_Read_def)
next
  case False
  then have "length (EncodeToString (take 16 (entropy s))) = 22"
    by (simp add: EncodeToString_length)
  then have "EncodeToString (take 16 (entropy s)) \<noteq> []" by auto
  with False show ?thesis by (simp add: generateRequestID_def rand_Read_def)
qed

lemma generateRequestID_money: "money (snd (generateRequestID s)) = money s"
  by (simp add: generateRequestID_def rand_Read_def)

lemma generateRequestID_bank: "bank (snd (generateRequestID s)) = bank s"
  by (simp add: generateRequestID_def rand_Read_def)

lemma GetRequestID_WithValue:
  "GetRequestID (Some (WithValue c RequestIDContextKey (StringValue v))) = v"
  by (simp add: GetRequestID_def WithValue_def Value_def)

section \<open>Calls that pass through the status recorder\<close>

lemma forwarded_calls: "ResponseWriter (foldl rw_call rw calls) = ResponseWriter rw @ calls"
proof (induction calls arbitrary: rw)
  case Nil
  then show ?case by simp
next
  case (Cons c calls)
  then show ?case by (cases c) (simp_all add: rw_WriteHeader_def Let_def)
qed

lemma observed_status: "status (foldl rw_call rw calls) = last (status rw # statusCalls calls)"
proof (induction calls arbitrary: rw)
  case Nil
  then show ?case by simp
next
  case (Cons c calls)
  then show ?case by (cases c) (simp_all add: rw_WriteHeader_def Let_def)
qed

lemma LoggingMiddleware_calls:
  "fst (LoggingMiddleware next r s) =
     fst (next r (s\<lparr>console := console s @
                     [LogStart (GetRequestID (Some (ctx r))) (Method r) (Path r)]\<rparr>))"
  by (simp add: LoggingMiddleware_def Let_def split_beta forwarded_calls)

lemma LoggingMiddleware_money:
  "money (snd (LoggingMiddleware next r s)) =
     money (snd (next r (s\<lparr>console := console s @
                     [LogStart (GetRequestID (Some (ctx r))) (Method r) (Path r)]\<rparr>)))"
  by (simp add: LoggingMiddleware_def Let_def split_beta)

lemma LoggingMiddleware_bank:
  "bank (snd (LoggingMiddleware next r s)) =
     bank (snd (next r (s\<lparr>console := console s @
                     [LogStart (GetRequestID (Some (ctx r))) (Method r) (Path r)]\<rparr>)))"
  by (simp add: LoggingMiddleware_def Let_def split_beta)

section \<open>The two handler chains\<close>

lemma payHandlerChain_money: "money (snd (payHandlerChain r s)) = money (snd (payHandler r s))"
  by (simp add: payHandlerChain_def RequestIDMiddleware_def Let_def split_beta
      LoggingMiddleware_money payHandler_money generateRequestID_money)

lemma payHandlerChain_bank: "bank (snd (payHandlerChain r s)) = bank s"
  by (simp add: payHandlerChain_def RequestIDMiddleware_def Let_def split_beta
      LoggingMiddleware_bank payHandler_bank generateRequestID_bank)

lemma saveHandlerChain_money: "money (snd (saveHandlerChain r s)) = money (snd (saveHandler r s))"
  by (simp add: saveHandlerChain_def RequestIDMiddleware_def Let_def split_beta
      LoggingMiddleware_money saveHandler_money generateRequestID_money)

lemma saveHandlerChain_bank: "bank (snd (saveHandlerChain r s)) = bank (snd (saveHandler r s))"
  by (simp add: saveHandlerChain_def RequestIDMiddleware_def Let_def split_beta
      LoggingMiddleware_bank LoggingMiddleware_money saveHandler_bank generateRequestID_bank generateRequestID_money)

lemma payHandler_one_write: "\<exists>buf. fst (payHandler r s) = [WriteCall buf]"
  by (simp add: payHandler_calls split: option.splits)

lemma saveHandler_one_write: "\<exists>buf. fst (saveHandler r s) = [WriteCall buf]"
  by (simp add: saveHandler_calls split: option.splits)

lemma payHandlerChain_calls:
  "\<exists>rid buf. fst (payHandlerChain r s) = [HeaderSetCall RequestIDHeader rid, WriteCall buf]"
  using payHandler_one_write
  by (simp add: payHandlerChain_def RequestIDMiddleware_def Let_def split_beta
      LoggingMiddleware_calls)

lemma saveHandlerChain_calls:
  "\<exists>rid buf. fst (saveHandlerChain r s) = [HeaderSetCall RequestIDHeader rid, WriteCall buf]"
  using saveHandler_one_write
  by (simp add: saveHandlerChain_def RequestIDMiddleware_def Let_def split_beta
      LoggingMiddleware_calls)

lemma Code_one_write: "Code (foldl rec_call NewRecorder [WriteCall buf]) = 200"
  by (simp add: NewRecorder_def rec_Write_def rec_WriteHeader_def Let_def)

lemma Code_header_write:
  "Code (foldl rec_call NewRecorder [HeaderSetCall k v, WriteCall buf]) = 200"
  by (simp add: NewRecorder_def rec_Write_def rec_WriteHeader_def Let_def)

section \<open>The middleware, unfolded\<close>

lemma RequestIDMiddleware_reuse:
  assumes "Header_Get RequestIDHeader (Header r) \<noteq> []"
    and "Header_Get RequestIDHeader (Header r) \<noteq> '' ''"
  shows "RequestIDMiddleware next r s =
     (HeaderSetCall RequestIDHeader (Header_Get RequestIDHeader (Header r)) #
        fst (next (r\<lparr>ctx := WithValue (ctx r) RequestIDContextKey
                            (StringValue (Header_Get RequestIDHeader (Header r)))\<rparr>) s),
      snd (next (r\<lparr>ctx := WithValue (ctx r) RequestIDContextKey
                            (StringValue (Header_Get RequestIDHeader (Header r)))\<rparr>) s))"
  using assms by (simp add: RequestIDMiddleware_def Let_def split_beta)

lemma RequestIDMiddleware_generate:
  assumes "Header_Get RequestIDHeader (Header r) = [] \<or>
           Header_Get RequestIDHeader (Header r) = '' ''"
  shows "RequestIDMiddleware next r s =
     (HeaderSetCall RequestIDHeader (fst (generateRequestID s)) #
        fst (next (r\<lparr>ctx := WithValue (ctx r) RequestIDContextKey
                            (StringValue (fst (generateRequestID s)))\<rparr>)
                  (snd (generateRequestID s))),
      snd (next (r\<lparr>ctx := WithValue (ctx r) RequestIDContextKey
                            (StringValue (fst (generateRequestID s)))\<rparr>)
                (snd (generateRequestID s))))"
  using assms by (auto simp: RequestIDMiddleware_def Let_def split_beta)

lemma Result_Header_set_then_write:
  "Header_Get k (Result_Header (foldl rec_call NewRecorder [HeaderSetCall k v, WriteCall buf])) = v"
  by (simp add: NewRecorder_def rec_Write_def rec_WriteHeader_def Let_def Result_Header_def
      Header_Get_def Header_Set_def)

lemma LoggingMiddleware_console:
  "console (snd (LoggingMiddleware next r s)) =
     console (snd (next r (s\<lparr>console := console s @
                     [LogStart (GetRequestID (Some (ctx r))) (Method r) (Path r)]\<rparr>))) @
     [LogEnd (GetRequestID (Some (ctx r))) (Method r) (Path r)
        (last (200 # statusCalls (fst (next r (s\<lparr>console := console s @
                     [LogStart (GetRequestID (Some (ctx r))) (Method r) (Path r)]\<rparr>)))))]"
  by (simp add: LoggingMiddleware_def Let_def split_beta observed_status)

lemma statusCalls_append: "statusCalls (xs @ ys) = statusCalls xs @ statusCalls ys"
  by (induction xs rule: statusCalls.induct) simp_all

lemma response_header_of_chain:
  assumes "\<And>r s. \<exists>buf. fst (h r s) = [WriteCall buf]"
  shows "Header_Get RequestIDHeader
           (Result_Header (fst (ServeHTTP (RequestIDMiddleware (LoggingMiddleware h)) r s))) =
         (if Header_Get RequestIDHeader (Header r) = [] \<or>
             Header_Get RequestIDHeader (Header r) = '' ''
          then fst (generateRequestID s) else Header_Get RequestIDHeader (Header r))"
proof -
  let ?rid = "if Header_Get RequestIDHeader (Header r) = [] \<or>
                 Header_Get RequestIDHeader (Header r) = '' ''
              then fst (generateRequestID s) else Header_Get RequestIDHeader (Header r)"
  have "\<exists>buf. fst (RequestIDMiddleware (LoggingMiddleware h) r s) =
          [HeaderSetCall RequestIDHeader ?rid, WriteCall buf]"
    using assms
    by (simp add: RequestIDMiddleware_def Let_def split_beta LoggingMiddleware_calls)
  then obtain buf where "fst (RequestIDMiddleware (LoggingMiddleware h) r s) =
          [HeaderSetCall RequestIDHeader ?rid, WriteCall buf]" by blast
  then show ?thesis
    by (simp add: ServeHTTP_def split_beta Result_Header_set_then_write del: foldl.simps)
qed

lemma response_header_payChain:
  "Header_Get RequestIDHeader (Result_Header (fst (ServeHTTP payHandlerChain r s))) =
     (if Header_Get RequestIDHeader (Header r) = [] \<or>
         Header_Get RequestIDHeader (Header r) = '' ''
      then fst (generateRequestID s) else Header_Get RequestIDHeader (Header r))"
  unfolding payHandlerChain_def
  by (rule response_header_of_chain) (rule payHandler_one_write)

lemma response_header_saveChain:
  "Header_Get RequestIDHeader (Result_Header (fst (ServeHTTP saveHandlerChain r s))) =
     (if Header_Get RequestIDHeader (Header r) = [] \<or>
         Header_Get RequestIDHeader (Header r) = '' ''
      then fst (generateRequestID s) else Header_Get RequestIDHeader (Header r))"
  unfolding saveHandlerChain_def
  by (rule response_header_of_chain) (rule saveHandler_one_write)

section \<open>Status of the responses of the two handlers\<close>

lemma last_console_LoggingMiddleware_pay:
  "last (console (snd (LoggingMiddleware payHandler r s))) =
     LogEnd (GetRequestID (Some (ctx r))) (Method r) (Path r) 200"
proof -
  obtain buf where "fst (payHandler r (s\<lparr>console := console s @
      [LogStart (GetRequestID (Some (ctx r))) (Method r) (Path r)]\<rparr>)) = [WriteCall buf]"
    using payHandler_one_write by blast
  then show ?thesis by (simp add: LoggingMiddleware_console)
qed

lemma last_console_LoggingMiddleware_save:
  "last (console (snd (LoggingMiddleware saveHandler r s))) =
     LogEnd (GetRequestID (Some (ctx r))) (Method r) (Path r) 200"
proof -
  obtain buf where "fst (saveHandler r (s\<lparr>console := console s @
      [LogStart (GetRequestID (Some (ctx r))) (Method r) (Path r)]\<rparr>)) = [WriteCall buf]"
    using saveHandler_one_write by blast
  then show ?thesis by (simp add: LoggingMiddleware_console)
qed

lemma Code_ServeHTTP_pay: "Code (fst (ServeHTTP payHandler r s)) = 200"
proof -
  obtain buf where "fst (payHandler r s) = [WriteCall buf]"
    using payHandler_one_write by blast
  then show ?thesis by (simp add: ServeHTTP_def split_beta Code_one_write del: foldl.simps)
qed

lemma Code_ServeHTTP_save: "Code (fst (ServeHTTP saveHandler r s)) = 200"
proof -
  obtain buf where "fst (saveHandler r s) = [WriteCall buf]"
    using saveHandler_one_write by blast
  then show ?thesis by (simp add: ServeHTTP_def split_beta Code_one_write del: foldl.simps)
qed

lemma Code_ServeHTTP_payChain: "Code (fst (ServeHTTP payHandlerChain r s)) = 200"
proof -
  obtain rid buf where "fst (payHandlerChain r s) = [HeaderSetCall RequestIDHeader rid, WriteCall buf]"
    using payHandlerChain_calls by blast
  then show ?thesis by (simp add: ServeHTTP_def split_beta Code_header_write del: foldl.simps)
qed

lemma Code_ServeHTTP_saveChain: "Code (fst (ServeHTTP saveHandlerChain r s)) = 200"
proof -
  obtain rid buf where "fst (saveHandlerChain r s) = [HeaderSetCall RequestIDHeader rid, WriteCall buf]"
    using saveHandlerChain_calls by blast
  then show ?thesis by (simp add: ServeHTTP_def split_beta Code_header_write del: foldl.simps)
qed

lemma statusCalls_pay: "statusCalls (fst (payHandler r s)) = []"
  using payHandler_one_write [of r s] by auto

lemma statusCalls_save: "statusCalls (fst (saveHandler r s)) = []"
  using saveHandler_one_write [of r s] by auto

lemma RecBody_ServeHTTP_pay:
  "RecBody (fst (ServeHTTP payHandler r s)) =
     (case snd (Body r) of
        Some e \<Rightarrow> ''error read HTTP body'' @ e
      | None \<Rightarrow>
          (case snd (Atoi (fst (Body r))) of
             Some e \<Rightarrow> ''invalid amount''
           | None \<Rightarrow>
               if sint (fst (Atoi (fst (Body r)))) \<le> sint (money s)
               then ''current balance: '' @ Itoa (money (snd (payHandler r s))) @
                    '', current bank: '' @ Itoa (bank (snd (payHandler r s)))
               else ''low balance''))"
  by (simp add: ServeHTTP_def split_beta payHandler_calls payHandler_money payHandler_bank
      NewRecorder_def rec_Write_def rec_WriteHeader_def Let_def split: option.splits)

lemma RecBody_ServeHTTP_save:
  "RecBody (fst (ServeHTTP saveHandler r s)) =
     (case snd (Body r) of
        Some e \<Rightarrow> ''error read HTTP body'' @ e
      | None \<Rightarrow>
          (case snd (Atoi (fst (Body r))) of
             Some e \<Rightarrow> ''invalid amount''
           | None \<Rightarrow>
               if sint (fst (Atoi (fst (Body r)))) \<le> sint (money s)
               then ''current balance: '' @ Itoa (money (snd (saveHandler r s))) @
                    '', current bank: '' @ Itoa (bank (snd (saveHandler r s)))
               else ''low balance for bank transfer''))"
  by (simp add: ServeHTTP_def split_beta saveHandler_calls saveHandler_money saveHandler_bank
      NewRecorder_def rec_Write_def rec_WriteHeader_def Let_def split: option.splits)

lemma RecBody_header_write:
  "RecBody (foldl rec_call NewRecorder (HeaderSetCall k v # [WriteCall buf])) =
   RecBody (foldl rec_call NewRecorder [WriteCall buf])"
  by (simp add: NewRecorder_def rec_Write_def rec_WriteHeader_def Let_def)

lemma payHandler_calls_frame:
  assumes "Body r1 = Body r" and "money s1 = money s" and "bank s1 = bank s"
  shows "fst (payHandler r1 s1) = fst (payHandler r s)"
  unfolding payHandler_calls assms by (rule refl)

lemma saveHandler_calls_frame:
  assumes "Body r1 = Body r" and "money s1 = money s" and "bank s1 = bank s"
  shows "fst (saveHandler r1 s1) = fst (saveHandler r s)"
  unfolding saveHandler_calls assms by (rule refl)

lemma payHandlerChain_calls_eq:
  "tl (fst (payHandlerChain r s)) = fst (payHandler r s)"
  by (auto simp: payHandlerChain_def RequestIDMiddleware_def Let_def split_beta
      LoggingMiddleware_calls generateRequestID_money generateRequestID_bank
      intro!: payHandler_calls_frame)

lemma saveHandlerChain_calls_eq:
  "tl (fst (saveHandlerChain r s)) = fst (saveHandler r s)"
  by (auto simp: saveHandlerChain_def RequestIDMiddleware_def Let_def split_beta
      LoggingMiddleware_calls generateRequestID_money generateRequestID_bank
      intro!: saveHandler_calls_frame)

lemma RecBody_ServeHTTP_payChain:
  "RecBody (fst (ServeHTTP payHandlerChain r s)) = RecBody (fst (ServeHTTP payHandler r s))"
proof -
  obtain rid buf where c: "fst (payHandlerChain r s) = [HeaderSetCall RequestIDHeader rid, WriteCall buf]"
    using payHandlerChain_calls by blast
  with payHandlerChain_calls_eq [of r s] have "fst (payHandler r s) = [WriteCall buf]" by simp
  with c show ?thesis
    by (simp add: ServeHTTP_def split_beta RecBody_header_write del: foldl.simps)
qed

lemma RecBody_ServeHTTP_saveChain:
  "RecBody (fst (ServeHTTP saveHandlerChain r s)) = RecBody (fst (ServeHTTP saveHandler r s))"
proof -
  obtain rid buf where c: "fst (saveHandlerChain r s) = [HeaderSetCall RequestIDHeader rid, WriteCall buf]"
    using saveHandlerChain_calls by blast
  with saveHandlerChain_calls_eq [of r s] have "fst (saveHandler r s) = [WriteCall buf]" by simp
  with c show ?thesis
    by (simp add: ServeHTTP_def split_beta RecBody_header_write del: foldl.simps)
qed

section \<open>The claims\<close>

subsection \<open>C1: the pay handler debits the balance\<close>

text \<open>
  C1, as amended. For every request to the pay handler whose body is read without error
  and parses as a non-negative amount \<open>a\<close>: the debit succeeds exactly when the balance
  is at least \<open>a\<close>. On success the balance, read as an integer, is the old balance minus
  \<open>a\<close>, the bank is unchanged and the response is the single body
  \<open>current balance: X, current bank: Y\<close> rendering the state after the debit. Otherwise
  balance and bank are unchanged and the response body is \<open>low balance\<close>.
\<close>

theorem pay_debit_nonnegative_amount:
  assumes "Body r = (body, None)" and "Atoi body = (a, None)" and "0 \<le> sint a"
  shows "(sint a \<le> sint (money s) \<longrightarrow>
            sint (money (snd (payHandler r s))) = sint (money s) - sint a \<and>
            bank (snd (payHandler r s)) = bank s \<and>
            fst (payHandler r s) =
              [WriteCall (''current balance: '' @ Itoa (money (snd (payHandler r s))) @
                          '', current bank: '' @ Itoa (bank (snd (payHandler r s))))]) \<and>
         (\<not> sint a \<le> sint (money s) \<longrightarrow>
            money (snd (payHandler r s)) = money s \<and>
            bank (snd (payHandler r s)) = bank s \<and>
            fst (payHandler r s) = [WriteCall ''low balance''])"
proof (cases "sint a \<le> sint (money s)")
  case True
  have "sint (money s) - sint a < 9223372036854775808"
    using assms(3) sint_range64 [of "money s"] by linarith
  moreover have "- 9223372036854775808 \<le> sint (money s) - sint a"
    using True by linarith
  ultimately have "sint (money s + (- a)) = sint (money s) - sint a"
    by (rule sint_sub_exact [rotated])
  with True assms(1,2) show ?thesis
    by (simp add: payHandler_money payHandler_bank payHandler_calls)
next
  case False
  with assms(1,2) show ?thesis
    by (simp add: payHandler_money payHandler_bank payHandler_calls)
qed

text \<open>
  The first scenario of the specification: balance 1000, bank 0, body \<open>150\<close>.
\<close>

theorem pay_debit_nonnegative_amount_witness:
  "Body (testRequest ''150'') = (''150'', None) \<and> Atoi ''150'' = (150, None) \<and>
   0 \<le> sint (150 :: int64) \<and> sint (150 :: int64) \<le> sint (money (testWorld 1000 0)) \<and>
   sint (money (snd (payHandler (testRequest ''150'') (testWorld 1000 0)))) = 850 \<and>
   bank (snd (payHandler (testRequest ''150'') (testWorld 1000 0))) = 0 \<and>
   fst (payHandler (testRequest ''150'') (testWorld 1000 0)) =
     [WriteCall ''current balance: 850, current bank: 0'']"
proof -
  have b: "Body (testRequest ''150'') = (''150'', None)" by (simp add: testRequest_def)
  have p: "Atoi ''150'' = (150, None)" by code_simp
  have n: "0 \<le> sint (150 :: int64)" by simp
  have le: "sint (150 :: int64) \<le> sint (money (testWorld 1000 0))" by (simp add: testWorld_def)
  have c: "fst (payHandler (testRequest ''150'') (testWorld 1000 0)) =
     [WriteCall ''current balance: 850, current bank: 0'']" by code_simp
  from pay_debit_nonnegative_amount [OF b p n, of "testWorld 1000 0"] le
  have "sint (money (snd (payHandler (testRequest ''150'') (testWorld 1000 0)))) =
          sint (money (testWorld 1000 0)) - sint (150 :: int64)"
    and "bank (snd (payHandler (testRequest ''150'') (testWorld 1000 0))) = bank (testWorld 1000 0)"
    by simp_all
  then show ?thesis using b p n le c by (simp add: testWorld_def)
qed

text \<open>
  The claim as stated covers every amount that parses. With balance 1000 and body
  \<open>-9223372036854775807\<close> the comparison succeeds and the addition wraps around: the new
  balance is \<open>-9223372036854774809\<close>, not the old balance minus the amount.
\<close>

theorem pay_exact_decrease_counterexample:
  "snd (Body (testRequest ''-9223372036854775807'')) = None \<and>
   Atoi ''-9223372036854775807'' = (- 9223372036854775807, None) \<and>
   sint (- 9223372036854775807 :: int64) \<le> sint (money (testWorld 1000 0)) \<and>
   sint (money (snd (payHandler (testRequest ''-9223372036854775807'') (testWorld 1000 0)))) \<noteq>
     sint (money (testWorld 1000 0)) - sint (- 9223372036854775807 :: int64) \<and>
   fst (payHandler (testRequest ''-9223372036854775807'') (testWorld 1000 0)) =
     [WriteCall ''current balance: -9223372036854774809, current bank: 0'']"
  by code_simp

subsection \<open>C2: the save handler moves funds from the balance to the bank\<close>

text \<open>
  C2, as amended. For every request to the save handler whose body is read without
  error and parses as a non-negative amount \<open>a\<close>: when the transfer succeeds and
  \<open>bank + a\<close> does not exceed the largest 64-bit integer, the state after it satisfies
  \<open>balance_before = balance_after + a\<close> and \<open>bank_after = bank_before + a\<close> over the
  integers, and the response renders exactly that pair. On insufficient funds both
  counters are unchanged and the response body is \<open>low balance for bank transfer\<close>.
\<close>

theorem save_transfer_nonnegative_amount:
  assumes "Body r = (body, None)" and "Atoi body = (a, None)" and "0 \<le> sint a"
  shows "(sint a \<le> sint (money s) \<and> sint (bank s) + sint a \<le> 9223372036854775807 \<longrightarrow>
            sint (money s) = sint (money (snd (saveHandler r s))) + sint a \<and>
            sint (bank (snd (saveHandler r s))) = sint (bank s) + sint a \<and>
            fst (saveHandler r s) =
              [WriteCall (''current balance: '' @ Itoa (money (snd (saveHandler r s))) @
                          '', current bank: '' @ Itoa (bank (snd (saveHandler r s))))]) \<and>
         (\<not> sint a \<le> sint (money s) \<longrightarrow>
            money (snd (saveHandler r s)) = money s \<and>
            bank (snd (saveHandler r s)) = bank s \<and>
            fst (saveHandler r s) = [WriteCall ''low balance for bank transfer''])"
proof (cases "sint a \<le> sint (money s)")
  case True
  have "sint (money s) - sint a < 9223372036854775808"
    using assms(3) sint_range64 [of "money s"] by linarith
  moreover have "- 9223372036854775808 \<le> sint (money s) - sint a"
    using True by linarith
  ultimately have m: "sint (money s + (- a)) = sint (money s) - sint a"
    by (rule sint_sub_exact [rotated])
  have b: "sint (bank s + a) = sint (bank s) + sint a"
    if "sint (bank s) + sint a \<le> 9223372036854775807"
  proof (rule sint_add_exact)
    show "- 9223372036854775808 \<le> sint (bank s) + sint a"
      using assms(3) sint_range64 [of "bank s"] by linarith
    show "sint (bank s) + sint a < 9223372036854775808"
      using that by linarith
  qed
  from True assms(1,2) m b show ?thesis
    by (simp add: saveHandler_money saveHandler_bank saveHandler_calls)
next
  case False
  with assms(1,2) show ?thesis
    by (simp add: saveHandler_money saveHandler_bank saveHandler_calls)
qed

text \<open>The save scenario of the specification: balance 1000, bank 0, body \<open>200\<close>.\<close>

theorem save_transfer_nonnegative_amount_witness:
  "Body (testRequest ''200'') = (''200'', None) \<and> Atoi ''200'' = (200, None) \<and>
   0 \<le> sint (200 :: int64) \<and> sint (200 :: int64) \<le> sint (money (testWorld 1000 0)) \<and>
   sint (bank (testWorld 1000 0)) + sint (200 :: int64) \<le> 9223372036854775807 \<and>
   sint (money (snd (saveHandler (testRequest ''200'') (testWorld 1000 0)))) + 200 = 1000 \<and>
   sint (bank (snd (saveHandler (testRequest ''200'') (testWorld 1000 0)))) = 200 \<and>
   fst (saveHandler (testRequest ''200'') (testWorld 1000 0)) =
     [WriteCall ''current balance: 800, current bank: 200'']"
proof -
  have b: "Body (testRequest ''200'') = (''200'', None)" by (simp add: testRequest_def)
  have p: "Atoi ''200'' = (200, None)" by code_simp
  have n: "0 \<le> sint (200 :: int64)" by simp
  have le: "sint (200 :: int64) \<le> sint (money (testWorld 1000 0))" by (simp add: testWorld_def)
  have rg: "sint (bank (testWorld 1000 0)) + sint (200 :: int64) \<le> 9223372036854775807"
    by (simp add: testWorld_def)
  have c: "fst (saveHandler (testRequest ''200'') (testWorld 1000 0)) =
     [WriteCall ''current balance: 800, current bank: 200'']" by code_simp
  from save_transfer_nonnegative_amount [OF b p n, of "testWorld 1000 0"] le rg
  have "sint (money (testWorld 1000 0)) =
          sint (money (snd (saveHandler (testRequest ''200'') (testWorld 1000 0)))) +
          sint (200 :: int64)"
    and "sint (bank (snd (saveHandler (testRequest ''200'') (testWorld 1000 0)))) =
          sint (bank (testWorld 1000 0)) + sint (200 :: int64)"
    by simp_all
  then show ?thesis using b p n le rg c by (simp add: testWorld_def)
qed

text \<open>
  The claim as stated puts no bound on the counters. With balance 1000, bank
  \<open>9223372036854775000\<close> and body \<open>1000\<close> the transfer succeeds and \<^verbatim>\<open>bank.Add\<close> wraps
  around: the bank becomes \<open>-9223372036854775616\<close>, not the old bank plus the amount.
\<close>

theorem save_conservation_counterexample:
  "snd (Body (testRequest ''1000'')) = None \<and>
   Atoi ''1000'' = (1000, None) \<and>
   sint (1000 :: int64) \<le> sint (money (testWorld 1000 9223372036854775000)) \<and>
   fst (saveHandler (testRequest ''1000'') (testWorld 1000 9223372036854775000)) =
     [WriteCall ''current balance: 0, current bank: -9223372036854775616''] \<and>
   sint (bank (snd (saveHandler (testRequest ''1000'') (testWorld 1000 9223372036854775000)))) \<noteq>
     sint (bank (testWorld 1000 9223372036854775000)) + sint (1000 :: int64)"
  by code_simp

subsection \<open>C3: a negative amount is not rejected\<close>

text \<open>
  C3 says that a body that parses as a negative amount is answered with
  \<open>invalid amount\<close> and never reaches the ledger. The handlers have no such check:
  evaluated on body \<open>-100\<close> with balance 1000 and bank 0, the pay handler answers
  \<open>current balance: 1100, current bank: 0\<close> and raises the balance to 1100, and the save
  handler raises the balance to 1100 and lowers the bank to -100.
\<close>

theorem negative_amount_reaches_ledger:
  "Atoi ''-100'' = (- 100, None) \<and> sint (- 100 :: int64) < 0 \<and>
   fst (payHandler (testRequest ''-100'') (testWorld 1000 0)) =
     [WriteCall ''current balance: 1100, current bank: 0''] \<and>
   money (snd (payHandler (testRequest ''-100'') (testWorld 1000 0))) = 1100 \<and>
   fst (saveHandler (testRequest ''-100'') (testWorld 1000 0)) =
     [WriteCall ''current balance: 1100, current bank: -100''] \<and>
   money (snd (saveHandler (testRequest ''-100'') (testWorld 1000 0))) = 1100 \<and>
   bank (snd (saveHandler (testRequest ''-100'') (testWorld 1000 0))) = - 100"
  by code_simp

subsection \<open>C4: the counters stay non-negative\<close>

text \<open>
  C4, as amended. Starting from any state with \<open>balance \<ge> 0\<close>, \<open>bank \<ge> 0\<close> and
  \<open>balance + bank\<close> at most the largest 64-bit integer, every pay and every save
  operation whose body does not parse as a negative amount preserves these three
  conditions. The balance never increases and the pay handler leaves the bank as it is;
  under save the bank never decreases; and a counter changes only when the body was read
  and parsed and the balance was at least the amount, that is on a successful pay or save.
\<close>

theorem ledger_invariant_nonnegative_amounts:
  assumes "0 \<le> sint (money s)" and "0 \<le> sint (bank s)"
    and "sint (money s) + sint (bank s) \<le> 9223372036854775807"
    and "snd (Body r) = None \<and> snd (Atoi (fst (Body r))) = None \<longrightarrow>
           0 \<le> sint (fst (Atoi (fst (Body r))))"
  shows "0 \<le> sint (money (snd (payHandler r s))) \<and>
         0 \<le> sint (bank (snd (payHandler r s))) \<and>
         sint (money (snd (payHandler r s))) + sint (bank (snd (payHandler r s)))
           \<le> 9223372036854775807 \<and>
         sint (money (snd (payHandler r s))) \<le> sint (money s) \<and>
         bank (snd (payHandler r s)) = bank s \<and>
         0 \<le> sint (money (snd (saveHandler r s))) \<and>
         0 \<le> sint (bank (snd (saveHandler r s))) \<and>
         sint (money (snd (saveHandler r s))) + sint (bank (snd (saveHandler r s)))
           \<le> 9223372036854775807 \<and>
         sint (money (snd (saveHandler r s))) \<le> sint (money s) \<and>
         sint (bank s) \<le> sint (bank (snd (saveHandler r s))) \<and>
         (money (snd (payHandler r s)) \<noteq> money s \<or>
          money (snd (saveHandler r s)) \<noteq> money s \<or>
          bank (snd (saveHandler r s)) \<noteq> bank s \<longrightarrow>
            snd (Body r) = None \<and> snd (Atoi (fst (Body r))) = None \<and>
            sint (fst (Atoi (fst (Body r)))) \<le> sint (money s))"
proof (cases "snd (Body r) = None \<and> snd (Atoi (fst (Body r))) = None \<and>
              sint (fst (Atoi (fst (Body r)))) \<le> sint (money s)")
  case True
  define a where "a = fst (Atoi (fst (Body r)))"
  have nn: "0 \<le> sint a" and le: "sint a \<le> sint (money s)"
    using True assms(4) by (simp_all add: a_def)
  have m: "sint (money s + (- a)) = sint (money s) - sint a"
  proof (rule sint_sub_exact)
    show "- 9223372036854775808 \<le> sint (money s) - sint a" using le by linarith
    show "sint (money s) - sint a < 9223372036854775808"
      using nn sint_range64 [of "money s"] by linarith
  qed
  have b: "sint (bank s + a) = sint (bank s) + sint a"
  proof (rule sint_add_exact)
    show "- 9223372036854775808 \<le> sint (bank s) + sint a"
      using nn assms(2) by linarith
    show "sint (bank s) + sint a < 9223372036854775808"
      using le assms(3) by linarith
  qed
  have pm: "money (snd (payHandler r s)) = money s + (- a)"
    and sm: "money (snd (saveHandler r s)) = money s + (- a)"
    and sb: "bank (snd (saveHandler r s)) = bank s + a"
    using True by (simp_all add: payHandler_money saveHandler_money saveHandler_bank a_def)
  show ?thesis
    unfolding pm sm sb payHandler_bank m b
    using True nn le assms(1-3) by simp
next
  case False
  then have "money (snd (payHandler r s)) = money s"
    and "money (snd (saveHandler r s)) = money s"
    and "bank (snd (saveHandler r s)) = bank s"
    by (auto simp: payHandler_money saveHandler_money saveHandler_bank)
  then show ?thesis using assms(1-3) by (simp add: payHandler_bank)
qed

text \<open>A payment and a transfer of 150 from balance 1000 and bank 0.\<close>

theorem ledger_invariant_nonnegative_amounts_witness:
  "0 \<le> sint (money (testWorld 1000 0)) \<and> 0 \<le> sint (bank (testWorld 1000 0)) \<and>
   sint (money (testWorld 1000 0)) + sint (bank (testWorld 1000 0)) \<le> 9223372036854775807 \<and>
   snd (Body (testRequest ''150'')) = None \<and> Atoi (fst (Body (testRequest ''150''))) = (150, None) \<and>
   sint (money (snd (payHandler (testRequest ''150'') (testWorld 1000 0)))) = 850 \<and>
   sint (bank (snd (saveHandler (testRequest ''150'') (testWorld 1000 0)))) = 150 \<and>
   0 \<le> sint (money (snd (payHandler (testRequest ''150'') (testWorld 1000 0)))) \<and>
   0 \<le> sint (bank (snd (saveHandler (testRequest ''150'') (testWorld 1000 0)))) \<and>
   sint (money (snd (saveHandler (testRequest ''150'') (testWorld 1000 0)))) \<le> sint (money (testWorld 1000 0)) \<and>
   sint (bank (testWorld 1000 0)) \<le> sint (bank (snd (saveHandler (testRequest ''150'') (testWorld 1000 0))))"
proof -
  have h1: "0 \<le> sint (money (testWorld 1000 0))" and h2: "0 \<le> sint (bank (testWorld 1000 0))"
    and h3: "sint (money (testWorld 1000 0)) + sint (bank (testWorld 1000 0)) \<le> 9223372036854775807"
    by (simp_all add: testWorld_def)
  have p: "Atoi (fst (Body (testRequest ''150''))) = (150, None)" by code_simp
  have b: "snd (Body (testRequest ''150'')) = None" by (simp add: testRequest_def)
  have h4: "snd (Body (testRequest ''150'')) = None \<and>
            snd (Atoi (fst (Body (testRequest ''150'')))) = None \<longrightarrow>
            0 \<le> sint (fst (Atoi (fst (Body (testRequest ''150'')))))"
    by (simp add: p)
  have e1: "sint (money (snd (payHandler (testRequest ''150'') (testWorld 1000 0)))) = 850"
    and e2: "sint (bank (snd (saveHandler (testRequest ''150'') (testWorld 1000 0)))) = 150"
    by code_simp+
  from ledger_invariant_nonnegative_amounts [OF h1 h2 h3 h4]
  show ?thesis using h1 h2 h3 p b e1 e2 by simp
qed

text \<open>
  The claim as stated starts from any state with both counters non-negative. With
  balance 1 and bank \<open>9223372036854775807\<close> a save of 1 succeeds and the bank wraps around
  to \<open>-9223372036854775808\<close>.
\<close>

theorem ledger_invariant_counterexample:
  "0 \<le> sint (money (testWorld 1 9223372036854775807)) \<and>
   0 \<le> sint (bank (testWorld 1 9223372036854775807)) \<and>
   Atoi ''1'' = (1, None) \<and>
   fst (saveHandler (testRequest ''1'') (testWorld 1 9223372036854775807)) =
     [WriteCall ''current balance: 0, current bank: -9223372036854775808''] \<and>
   sint (bank (snd (saveHandler (testRequest ''1'') (testWorld 1 9223372036854775807)))) < 0"
  by code_simp

subsection \<open>C5: a rejected request leaves the ledger alone\<close>

text \<open>
  C5. For every request to the pay or save handler that is rejected, because reading the
  body failed, because the body does not parse (which includes the empty body), or
  because the balance is below the amount, both balance and bank are exactly unchanged.
  The same holds when the handler runs behind the two middleware stages.
\<close>

theorem rejected_request_leaves_ledger:
  assumes "snd (Body r) \<noteq> None \<or> snd (Atoi (fst (Body r))) \<noteq> None \<or>
           \<not> sint (fst (Atoi (fst (Body r)))) \<le> sint (money s)"
  shows "money (snd (payHandler r s)) = money s \<and> bank (snd (payHandler r s)) = bank s \<and>
         money (snd (saveHandler r s)) = money s \<and> bank (snd (saveHandler r s)) = bank s \<and>
         money (snd (payHandlerChain r s)) = money s \<and>
         bank (snd (payHandlerChain r s)) = bank s \<and>
         money (snd (saveHandlerChain r s)) = money s \<and>
         bank (snd (saveHandlerChain r s)) = bank s"
  using assms
  by (auto simp: payHandler_money payHandler_bank saveHandler_money saveHandler_bank
      payHandlerChain_money payHandlerChain_bank saveHandlerChain_money saveHandlerChain_bank)

text \<open>
  One request of each kind: a failed read, a body that is not a number, the empty
  body, and an amount above the balance.
\<close>

theorem rejected_request_leaves_ledger_witness:
  "snd (Body (failedRead ''unexpected EOF'')) \<noteq> None \<and>
   money (snd (payHandler (failedRead ''unexpected EOF'') (testWorld 1000 0))) = 1000 \<and>
   bank (snd (saveHandler (failedRead ''unexpected EOF'') (testWorld 1000 0))) = 0 \<and>
   fst (payHandler (failedRead ''unexpected EOF'') (testWorld 1000 0)) =
     [WriteCall ''error read HTTP bodyunexpected EOF''] \<and>
   snd (Atoi (fst (Body (testRequest ''not-a-number'')))) \<noteq> None \<and>
   money (snd (payHandler (testRequest ''not-a-number'') (testWorld 1000 0))) = 1000 \<and>
   bank (snd (saveHandler (testRequest ''not-a-number'') (testWorld 1000 0))) = 0 \<and>
   fst (payHandler (testRequest ''not-a-number'') (testWorld 1000 0)) =
     [WriteCall ''invalid amount''] \<and>
   snd (Atoi (fst (Body (testRequest '''')))) \<noteq> None \<and>
   money (snd (saveHandler (testRequest '''') (testWorld 1000 0))) = 1000 \<and>
   \<not> sint (fst (Atoi (fst (Body (testRequest ''1500''))))) \<le> sint (money (testWorld 1000 0)) \<and>
   money (snd (payHandler (testRequest ''1500'') (testWorld 1000 0))) = 1000 \<and>
   money (snd (saveHandlerChain (testRequest ''1500'') (testWorld 1000 0))) = 1000 \<and>
   bank (snd (saveHandlerChain (testRequest ''1500'') (testWorld 1000 0))) = 0 \<and>
   fst (saveHandler (testRequest ''1500'') (testWorld 1000 0)) =
     [WriteCall ''low balance for bank transfer'']"
proof -
  have m: "money (testWorld 1000 0) = 1000" and k: "bank (testWorld 1000 0) = 0"
    by (simp_all add: testWorld_def)
  have a: "snd (Body (failedRead ''unexpected EOF'')) \<noteq> None" by (simp add: failedRead_def)
  have b: "snd (Atoi (fst (Body (testRequest ''not-a-number'')))) \<noteq> None" by code_simp
  have c: "snd (Atoi (fst (Body (testRequest '''')))) \<noteq> None" by code_simp
  have d: "\<not> sint (fst (Atoi (fst (Body (testRequest ''1500''))))) \<le> sint (money (testWorld 1000 0))"
    by code_simp
  have r1: "fst (payHandler (failedRead ''unexpected EOF'') (testWorld 1000 0)) =
     [WriteCall ''error read HTTP bodyunexpected EOF'']" by code_simp
  have r2: "fst (payHandler (testRequest ''not-a-number'') (testWorld 1000 0)) =
     [WriteCall ''invalid amount'']" by code_simp
  have r3: "fst (saveHandler (testRequest ''1500'') (testWorld 1000 0)) =
     [WriteCall ''low balance for bank transfer'']" by code_simp
  from rejected_request_leaves_ledger [of "failedRead ''unexpected EOF''" "testWorld 1000 0"]
    rejected_request_leaves_ledger [of "testRequest ''not-a-number''" "testWorld 1000 0"]
    rejected_request_leaves_ledger [of "testRequest ''''" "testWorld 1000 0"]
    rejected_request_leaves_ledger [of "testRequest ''1500''" "testWorld 1000 0"]
  show ?thesis using a b c d r1 r2 r3 by (simp add: m k)
qed

subsection \<open>C7: the correlation identifier\<close>

text \<open>
  C7, as amended. For every inbound request: if the \<open>X-Request-ID\<close> header carries a
  value that is neither empty nor exactly one space, that exact value is attached to
  the request context and set as the response \<open>X-Request-ID\<close> header; if the header is
  absent, empty or exactly one space, a freshly generated non-empty identifier is
  attached and set instead. In both cases the middleware sets the response header
  before it calls the wrapped handler, and the response of the pay chain and of the save
  chain carries that identifier in its \<open>X-Request-ID\<close> header.
\<close>

theorem request_id_resolution:
  "(Header_Get RequestIDHeader (Header r) \<noteq> [] \<and>
    Header_Get RequestIDHeader (Header r) \<noteq> '' '' \<longrightarrow>
      (let h = Header_Get RequestIDHeader (Header r);
           r1 = r\<lparr>ctx := WithValue (ctx r) RequestIDContextKey (StringValue h)\<rparr>
       in RequestIDMiddleware next r s =
            (HeaderSetCall RequestIDHeader h # fst (next r1 s), snd (next r1 s)) \<and>
          GetRequestID (Some (ctx r1)) = h)) \<and>
   (Header_Get RequestIDHeader (Header r) = [] \<or>
    Header_Get RequestIDHeader (Header r) = '' '' \<longrightarrow>
      (let g = fst (generateRequestID s);
           s1 = snd (generateRequestID s);
           r1 = r\<lparr>ctx := WithValue (ctx r) RequestIDContextKey (StringValue g)\<rparr>
       in g \<noteq> [] \<and>
          RequestIDMiddleware next r s =
            (HeaderSetCall RequestIDHeader g # fst (next r1 s1), snd (next r1 s1)) \<and>
          GetRequestID (Some (ctx r1)) = g)) \<and>
   Header_Get RequestIDHeader (Result_Header (fst (ServeHTTP payHandlerChain r s))) =
     (if Header_Get RequestIDHeader (Header r) = [] \<or>
         Header_Get RequestIDHeader (Header r) = '' ''
      then fst (generateRequestID s) else Header_Get RequestIDHeader (Header r)) \<and>
   Header_Get RequestIDHeader (Result_Header (fst (ServeHTTP saveHandlerChain r s))) =
     (if Header_Get RequestIDHeader (Header r) = [] \<or>
         Header_Get RequestIDHeader (Header r) = '' ''
      then fst (generateRequestID s) else Header_Get RequestIDHeader (Header r))"
proof (intro conjI impI)
  assume "Header_Get RequestIDHeader (Header r) \<noteq> [] \<and>
          Header_Get RequestIDHeader (Header r) \<noteq> '' ''"
  then show "let h = Header_Get RequestIDHeader (Header r);
           r1 = r\<lparr>ctx := WithValue (ctx r) RequestIDContextKey (StringValue h)\<rparr>
       in RequestIDMiddleware next r s =
            (HeaderSetCall RequestIDHeader h # fst (next r1 s), snd (next r1 s)) \<and>
          GetRequestID (Some (ctx r1)) = h"
    by (simp add: Let_def RequestIDMiddleware_reuse GetRequestID_WithValue)
next
  assume "Header_Get RequestIDHeader (Header r) = [] \<or>
          Header_Get RequestIDHeader (Header r) = '' ''"
  then show "let g = fst (generateRequestID s);
           s1 = snd (generateRequestID s);
           r1 = r\<lparr>ctx := WithValue (ctx r) RequestIDContextKey (StringValue g)\<rparr>
       in g \<noteq> [] \<and>
          RequestIDMiddleware next r s =
            (HeaderSetCall RequestIDHeader g # fst (next r1 s1), snd (next r1 s1)) \<and>
          GetRequestID (Some (ctx r1)) = g"
    using RequestIDMiddleware_generate [of r "next" s]
    by (simp add: Let_def GetRequestID_WithValue generateRequestID_nonempty)
next
  show "Header_Get RequestIDHeader (Result_Header (fst (ServeHTTP payHandlerChain r s))) =
     (if Header_Get RequestIDHeader (Header r) = [] \<or>
         Header_Get RequestIDHeader (Header r) = '' ''
      then fst (generateRequestID s) else Header_Get RequestIDHeader (Header r))"
    by (rule response_header_payChain)
next
  show "Header_Get RequestIDHeader (Result_Header (fst (ServeHTTP saveHandlerChain r s))) =
     (if Header_Get RequestIDHeader (Header r) = [] \<or>
         Header_Get RequestIDHeader (Header r) = '' ''
      then fst (generateRequestID s) else Header_Get RequestIDHeader (Header r))"
    by (rule response_header_saveChain)
qed

text \<open>
  The header \<open>abc-123\<close> is reused; without a header sixteen bytes of the pool are
  encoded; with the header of one space and an empty pool the fallback is used.
\<close>

theorem request_id_resolution_witness:
  "Header_Get RequestIDHeader (Header (headerRequest ''abc-123'')) = ''abc-123'' \<and>
   RequestIDMiddleware echoHandler (headerRequest ''abc-123'') seededWorld =
     ([HeaderSetCall ''X-Request-ID'' ''abc-123'', WriteCall ''abc-123''], seededWorld) \<and>
   Header_Get RequestIDHeader (Header bareRequest) = [] \<and>
   fst (generateRequestID seededWorld) = ''AAECAwQFBgcICQoLDA0ODw'' \<and>
   fst (RequestIDMiddleware echoHandler bareRequest seededWorld) =
     [HeaderSetCall ''X-Request-ID'' ''AAECAwQFBgcICQoLDA0ODw'',
      WriteCall ''AAECAwQFBgcICQoLDA0ODw''] \<and>
   Header_Get RequestIDHeader (Header (headerRequest '' '')) = '' '' \<and>
   fst (RequestIDMiddleware echoHandler (headerRequest '' '') (testWorld 1000 0)) =
     [HeaderSetCall ''X-Request-ID'' ''fallback-id'', WriteCall ''fallback-id'']"
proof -
  have h1: "Header_Get RequestIDHeader (Header (headerRequest ''abc-123'')) = ''abc-123''"
    by (simp add: headerRequest_def Header_Get_def Header_Set_def)
  have h2: "Header_Get RequestIDHeader (Header bareRequest) = []"
    by (simp add: bareRequest_def Header_Get_def)
  have h3: "Header_Get RequestIDHeader (Header (headerRequest '' '')) = '' ''"
    by (simp add: headerRequest_def Header_Get_def Header_Set_def)
  have g1: "fst (generateRequestID seededWorld) = ''AAECAwQFBgcICQoLDA0ODw''" by code_simp
  have g2: "fst (generateRequestID (testWorld 1000 0)) = ''fallback-id''" by code_simp
  have k: "RequestIDHeader = ''X-Request-ID''" by (simp add: RequestIDHeader_def)
  have e: "\<And>r s. echoHandler r s = ([WriteCall (GetRequestID (Some (ctx r)))], s)"
    by (simp add: echoHandler_def)
  from request_id_resolution [of "headerRequest ''abc-123''" echoHandler seededWorld] h1
  have a: "RequestIDMiddleware echoHandler (headerRequest ''abc-123'') seededWorld =
     ([HeaderSetCall ''X-Request-ID'' ''abc-123'', WriteCall ''abc-123''], seededWorld)"
    by (simp add: Let_def e k GetRequestID_WithValue)
  from request_id_resolution [of bareRequest echoHandler seededWorld] h2 g1
  have b: "fst (RequestIDMiddleware echoHandler bareRequest seededWorld) =
     [HeaderSetCall ''X-Request-ID'' ''AAECAwQFBgcICQoLDA0ODw'',
      WriteCall ''AAECAwQFBgcICQoLDA0ODw'']"
    by (simp add: Let_def e k GetRequestID_WithValue)
  from request_id_resolution [of "headerRequest '' ''" echoHandler "testWorld 1000 0"] h3 g2
  have c: "fst (RequestIDMiddleware echoHandler (headerRequest '' '') (testWorld 1000 0)) =
     [HeaderSetCall ''X-Request-ID'' ''fallback-id'', WriteCall ''fallback-id'']"
    by (simp add: Let_def e k GetRequestID_WithValue)
  from h1 h2 h3 g1 a b c show ?thesis by simp
qed

text \<open>
  The claim as stated asks for a fresh identifier whenever the header is made of white
  space only. The middleware compares with the empty string and with one space: a
  header of two spaces is reused as it is, and nothing is generated.
\<close>

theorem whitespace_header_counterexample:
  "Header_Get RequestIDHeader (Header (headerRequest ''  '')) = ''  '' \<and>
   RequestIDMiddleware echoHandler (headerRequest ''  '') seededWorld =
     ([HeaderSetCall ''X-Request-ID'' ''  '', WriteCall ''  ''], seededWorld) \<and>
   fst (generateRequestID seededWorld) \<noteq> ''  ''"
  by code_simp

subsection \<open>C8: the response status recorder\<close>

text \<open>
  C8, as amended. The recorder starts at 200 and observes 200 whenever the wrapped
  handler never sets a status explicitly. Each explicit \<^verbatim>\<open>WriteHeader\<close> call sets the
  observed value to its code and forwards that one call to the underlying writer, so
  the observed value is the code of the last such call, and the underlying writer
  receives every call of the handler once and in order: as many status lines as the
  handler set, exactly one when it set the status once. The logging stage reports the
  observed value in its end event.
\<close>

theorem status_recorder_follows_calls:
  "status (foldl rw_call \<lparr>ResponseWriter = w, status = 200\<rparr> calls) =
     last (200 # statusCalls calls) \<and>
   ResponseWriter (foldl rw_call \<lparr>ResponseWriter = w, status = 200\<rparr> calls) = w @ calls \<and>
   statusCalls (w @ calls) = statusCalls w @ statusCalls calls \<and>
   rw_WriteHeader code \<lparr>ResponseWriter = w, status = st\<rparr> =
     \<lparr>ResponseWriter = w @ [WriteHeaderCall code], status = code\<rparr> \<and>
   fst (LoggingMiddleware next r s) =
     fst (next r (s\<lparr>console := console s @
                     [LogStart (GetRequestID (Some (ctx r))) (Method r) (Path r)]\<rparr>)) \<and>
   console (snd (LoggingMiddleware next r s)) =
     console (snd (next r (s\<lparr>console := console s @
                     [LogStart (GetRequestID (Some (ctx r))) (Method r) (Path r)]\<rparr>))) @
     [LogEnd (GetRequestID (Some (ctx r))) (Method r) (Path r)
        (last (200 # statusCalls (fst (next r (s\<lparr>console := console s @
                     [LogStart (GetRequestID (Some (ctx r))) (Method r) (Path r)]\<rparr>)))))]"
  by (simp add: observed_status forwarded_calls statusCalls_append rw_WriteHeader_def Let_def
      LoggingMiddleware_calls LoggingMiddleware_console)

text \<open>The three cases of the repository's test of the recorder.\<close>

theorem status_recorder_follows_calls_witness:
  "status (foldl rw_call \<lparr>ResponseWriter = [], status = 200\<rparr> [WriteCall ''test body'']) = 200 \<and>
   status (foldl rw_call \<lparr>ResponseWriter = [], status = 200\<rparr> [WriteHeaderCall 404]) = 404 \<and>
   ResponseWriter (foldl rw_call \<lparr>ResponseWriter = [], status = 200\<rparr> [WriteHeaderCall 404]) =
     [WriteHeaderCall 404] \<and>
   status (foldl rw_call \<lparr>ResponseWriter = [], status = 200\<rparr>
            [WriteHeaderCall 500, WriteCall ''error'']) = 500 \<and>
   ResponseWriter (foldl rw_call \<lparr>ResponseWriter = [], status = 200\<rparr>
            [WriteHeaderCall 500, WriteCall ''error'']) = [WriteHeaderCall 500, WriteCall ''error'']"
  using status_recorder_follows_calls [of "[]" "[WriteCall ''test body'']"]
    status_recorder_follows_calls [of "[]" "[WriteHeaderCall 404]"]
    status_recorder_follows_calls [of "[]" "[WriteHeaderCall 500, WriteCall ''error'']"]
  by simp

text \<open>
  The claim as stated speaks of a handler that sets no status before it writes a body,
  and of one forwarded status line for each response. A handler that writes a body and
  then calls \<^verbatim>\<open>WriteHeader\<close> with 404 and with 500 has set no status before the body,
  yet the recorder observes 500 and forwards both status calls, while the response that
  \<^verbatim>\<open>net/http\<close> sends has status 200.
\<close>

theorem status_recorder_counterexample:
  "LoggingMiddleware
     (scriptHandler [WriteCall ''OK'', WriteHeaderCall 404, WriteHeaderCall 500])
     (testRequest []) (testWorld 1000 0) =
   ([WriteCall ''OK'', WriteHeaderCall 404, WriteHeaderCall 500],
    (testWorld 1000 0)\<lparr>console :=
       [LogStart ''test-id'' ''POST'' ''/pay'', LogEnd ''test-id'' ''POST'' ''/pay'' 500]\<rparr>) \<and>
   statusCalls (fst (LoggingMiddleware
     (scriptHandler [WriteCall ''OK'', WriteHeaderCall 404, WriteHeaderCall 500])
     (testRequest []) (testWorld 1000 0))) = [404, 500] \<and>
   Code (fst (ServeHTTP (LoggingMiddleware
     (scriptHandler [WriteCall ''OK'', WriteHeaderCall 404, WriteHeaderCall 500]))
     (testRequest []) (testWorld 1000 0))) = 200"
  by code_simp

subsection \<open>C9: both handlers always answer with status 200\<close>

text \<open>
  C9. For every request to the pay or save handler and every state, whatever the
  outcome, the response status is 200: the handler makes no explicit status call, so
  the status comes from its write of the body. The outcome shows in the body only, and
  the body is fixed by the outcome: the text of the read error after
  \<open>error read HTTP body\<close>, \<open>invalid amount\<close>, the rendering
  \<open>current balance: X, current bank: Y\<close> of the state after the operation, or
  \<open>low balance\<close> (pay) and \<open>low balance for bank transfer\<close> (save). The four
  texts differ already in their first character. The same status and body are sent
  behind the middleware, where the recorder reports 200 as well.
\<close>

theorem handlers_always_answer_200:
  "Code (fst (ServeHTTP payHandler r s)) = 200 \<and>
   Code (fst (ServeHTTP saveHandler r s)) = 200 \<and>
   Code (fst (ServeHTTP payHandlerChain r s)) = 200 \<and>
   Code (fst (ServeHTTP saveHandlerChain r s)) = 200 \<and>
   statusCalls (fst (payHandler r s)) = [] \<and>
   statusCalls (fst (saveHandler r s)) = [] \<and>
   last (console (snd (LoggingMiddleware payHandler r s))) =
     LogEnd (GetRequestID (Some (ctx r))) (Method r) (Path r) 200 \<and>
   last (console (snd (LoggingMiddleware saveHandler r s))) =
     LogEnd (GetRequestID (Some (ctx r))) (Method r) (Path r) 200 \<and>
   RecBody (fst (ServeHTTP payHandler r s)) =
     (case snd (Body r) of
        Some e \<Rightarrow> ''error read HTTP body'' @ e
      | None \<Rightarrow>
          (case snd (Atoi (fst (Body r))) of
             Some e \<Rightarrow> ''invalid amount''
           | None \<Rightarrow>
               if sint (fst (Atoi (fst (Body r)))) \<le> sint (money s)
               then ''current balance: '' @ Itoa (money (snd (payHandler r s))) @
                    '', current bank: '' @ Itoa (bank (snd (payHandler r s)))
               else ''low balance'')) \<and>
   RecBody (fst (ServeHTTP saveHandler r s)) =
     (case snd (Body r) of
        Some e \<Rightarrow> ''error read HTTP body'' @ e
      | None \<Rightarrow>
          (case snd (Atoi (fst (Body r))) of
             Some e \<Rightarrow> ''invalid amount''
           | None \<Rightarrow>
               if sint (fst (Atoi (fst (Body r)))) \<le> sint (money s)
               then ''current balance: '' @ Itoa (money (snd (saveHandler r s))) @
                    '', current bank: '' @ Itoa (bank (snd (saveHandler r s)))
               else ''low balance for bank transfer'')) \<and>
   RecBody (fst (ServeHTTP payHandlerChain r s)) = RecBody (fst (ServeHTTP payHandler r s)) \<and>
   RecBody (fst (ServeHTTP saveHandlerChain r s)) = RecBody (fst (ServeHTTP saveHandler r s)) \<and>
   hd (RecBody (fst (ServeHTTP payHandler r s))) =
     (case snd (Body r) of
        Some e \<Rightarrow> CHR ''e''
      | None \<Rightarrow>
          (case snd (Atoi (fst (Body r))) of
             Some e \<Rightarrow> CHR ''i''
           | None \<Rightarrow>
               if sint (fst (Atoi (fst (Body r)))) \<le> sint (money s)
               then CHR ''c'' else CHR ''l'')) \<and>
   hd (RecBody (fst (ServeHTTP saveHandler r s))) =
     (case snd (Body r) of
        Some e \<Rightarrow> CHR ''e''
      | None \<Rightarrow>
          (case snd (Atoi (fst (Body r))) of
             Some e \<Rightarrow> CHR ''i''
           | None \<Rightarrow>
               if sint (fst (Atoi (fst (Body r)))) \<le> sint (money s)
               then CHR ''c'' else CHR ''l''))"
proof -
  have status:
    "Code (fst (ServeHTTP payHandler r s)) = 200"
    "Code (fst (ServeHTTP saveHandler r s)) = 200"
    "Code (fst (ServeHTTP payHandlerChain r s)) = 200"
    "Code (fst (ServeHTTP saveHandlerChain r s)) = 200"
    "statusCalls (fst (payHandler r s)) = []"
    "statusCalls (fst (saveHandler r s)) = []"
    by (rule Code_ServeHTTP_pay Code_ServeHTTP_save Code_ServeHTTP_payChain
        Code_ServeHTTP_saveChain statusCalls_pay statusCalls_save)+
  have first_pay: "hd (RecBody (fst (ServeHTTP payHandler r s))) =
     (case snd (Body r) of
        Some e \<Rightarrow> CHR ''e''
      | None \<Rightarrow>
          (case snd (Atoi (fst (Body r))) of
             Some e \<Rightarrow> CHR ''i''
           | None \<Rightarrow>
               if sint (fst (Atoi (fst (Body r)))) \<le> sint (money s)
               then CHR ''c'' else CHR ''l''))"
    unfolding RecBody_ServeHTTP_pay by (simp split: option.splits)
  have first_save: "hd (RecBody (fst (ServeHTTP saveHandler r s))) =
     (case snd (Body r) of
        Some e \<Rightarrow> CHR ''e''
      | None \<Rightarrow>
          (case snd (Atoi (fst (Body r))) of
             Some e \<Rightarrow> CHR ''i''
           | None \<Rightarrow>
               if sint (fst (Atoi (fst (Body r)))) \<le> sint (money s)
               then CHR ''c'' else CHR ''l''))"
    unfolding RecBody_ServeHTTP_save by (simp split: option.splits)
  show ?thesis
    by (intro conjI status last_console_LoggingMiddleware_pay
        last_console_LoggingMiddleware_save RecBody_ServeHTTP_pay RecBody_ServeHTTP_save
        RecBody_ServeHTTP_payChain RecBody_ServeHTTP_saveChain first_pay first_save)
qed

text \<open>A success, an insufficient balance, an invalid amount and a failed read.\<close>

theorem handlers_always_answer_200_witness:
  "Code (fst (ServeHTTP payHandler (testRequest ''150'') (testWorld 1000 0))) = 200 \<and>
   RecBody (fst (ServeHTTP payHandler (testRequest ''150'') (testWorld 1000 0))) =
     ''current balance: 850, current bank: 0'' \<and>
   Code (fst (ServeHTTP payHandler (testRequest ''1500'') (testWorld 1000 0))) = 200 \<and>
   RecBody (fst (ServeHTTP payHandler (testRequest ''1500'') (testWorld 1000 0))) = ''low balance'' \<and>
   Code (fst (ServeHTTP saveHandler (testRequest ''not-a-number'') (testWorld 1000 0))) = 200 \<and>
   RecBody (fst (ServeHTTP saveHandler (testRequest ''not-a-number'') (testWorld 1000 0))) =
     ''invalid amount'' \<and>
   Code (fst (ServeHTTP saveHandlerChain (failedRead ''unexpected EOF'') (testWorld 1000 0))) = 200 \<and>
   RecBody (fst (ServeHTTP saveHandlerChain (failedRead ''unexpected EOF'') (testWorld 1000 0))) =
     ''error read HTTP bodyunexpected EOF''"
proof -
  have b1: "RecBody (fst (ServeHTTP payHandler (testRequest ''150'') (testWorld 1000 0))) =
     ''current balance: 850, current bank: 0''" by code_simp
  have b2: "RecBody (fst (ServeHTTP payHandler (testRequest ''1500'') (testWorld 1000 0))) =
     ''low balance''" by code_simp
  have b3: "RecBody (fst (ServeHTTP saveHandler (testRequest ''not-a-number'') (testWorld 1000 0))) =
     ''invalid amount''" by code_simp
  have b4: "RecBody (fst (ServeHTTP saveHandlerChain (failedRead ''unexpected EOF'') (testWorld 1000 0))) =
     ''error read HTTP bodyunexpected EOF''" by code_simp
  from handlers_always_answer_200 [of "testRequest ''150''" "testWorld 1000 0"]
    handlers_always_answer_200 [of "testRequest ''1500''" "testWorld 1000 0"]
    handlers_always_answer_200 [of "testRequest ''not-a-number''" "testWorld 1000 0"]
    handlers_always_answer_200 [of "failedRead ''unexpected EOF''" "testWorld 1000 0"]
  show ?thesis using b1 b2 b3 b4 by simp
qed

subsection \<open>C10: the pay handler never writes the bank\<close>

text \<open>
  C10. For every request to the pay handler, any body and any state, on every branch,
  the bank counter after the request is the bank counter before it, also behind the
  middleware; of the two handlers only the save handler assigns to the bank.
\<close>

theorem pay_never_writes_bank:
  "bank (snd (payHandler r s)) = bank s \<and>
   bank (snd (LoggingMiddleware payHandler r s)) = bank s \<and>
   bank (snd (payHandlerChain r s)) = bank s"
  by (simp add: payHandler_bank LoggingMiddleware_bank payHandlerChain_bank)

text \<open>
  Bodies that succeed, that are negative, zero, larger than the balance or not a number,
  and a failed read.
\<close>

theorem pay_never_writes_bank_witness:
  "bank (snd (payHandler (testRequest ''150'') (testWorld 1000 7))) = 7 \<and>
   bank (snd (payHandler (testRequest ''-100'') (testWorld 1000 7))) = 7 \<and>
   bank (snd (payHandler (testRequest ''0'') (testWorld 1000 7))) = 7 \<and>
   bank (snd (payHandler (testRequest ''999999999999999999'') (testWorld 1000 7))) = 7 \<and>
   bank (snd (payHandler (testRequest ''not-a-number'') (testWorld 1000 7))) = 7 \<and>
   bank (snd (payHandlerChain (failedRead ''unexpected EOF'') (testWorld 1000 7))) = 7"
  using pay_never_writes_bank [of "testRequest ''150''" "testWorld 1000 7"]
    pay_never_writes_bank [of "testRequest ''-100''" "testWorld 1000 7"]
    pay_never_writes_bank [of "testRequest ''0''" "testWorld 1000 7"]
    pay_never_writes_bank [of "testRequest ''999999999999999999''" "testWorld 1000 7"]
    pay_never_writes_bank [of "testRequest ''not-a-number''" "testWorld 1000 7"]
    pay_never_writes_bank [of "failedRead ''unexpected EOF''" "testWorld 1000 7"]
  by (simp add: testWorld_def)

end
